theory Spec2Isabelle
  imports Complex_Main
begin

section \<open>Values exchanged with the target API\<close>

text \<open>
  A parsed JSON document as Python's \<^verbatim>\<open>json\<close> module hands it over: \<^verbatim>\<open>None\<close>, \<^verbatim>\<open>bool\<close>,
  \<^verbatim>\<open>int\<close>, \<^verbatim>\<open>float\<close>, \<^verbatim>\<open>str\<close>, \<^verbatim>\<open>list\<close> and \<^verbatim>\<open>dict\<close>. A dict is the list of its items
  (keys distinct, as in a dict); a float is the rational it denotes.
\<close>

datatype json =
    JNull
  | JBool bool
  | JInt int
  | JFloat rat
  | JStr string
  | JArr "json list"
  | JObj "(string \<times> json) list"

text \<open>
  Exceptions. \<open>JSONDecodeError\<close> is \<^verbatim>\<open>json.JSONDecodeError\<close> or a subclass of it;
  \<open>SimplejsonJSONDecodeError\<close> is the class of the same name of the \<^verbatim>\<open>simplejson\<close> package,
  which is not a subclass of it.
\<close>

datatype py_error =
    TypeError
  | ZeroDivisionError
  | JSONDecodeError
  | SimplejsonJSONDecodeError
  | RecursionError

text \<open>Truth value of a Python object, as \<^verbatim>\<open>if x:\<close> and \<^verbatim>\<open>x or y\<close> test it.\<close>

fun py_truthy :: "json \<Rightarrow> bool" where
  "py_truthy JNull = False"
| "py_truthy (JBool b) = b"
| "py_truthy (JInt i) = (i \<noteq> 0)"
| "py_truthy (JFloat q) = (q \<noteq> 0)"
| "py_truthy (JStr s) = (s \<noteq> [])"
| "py_truthy (JArr xs) = (xs \<noteq> [])"
| "py_truthy (JObj kvs) = (kvs \<noteq> [])"

text \<open>\<^verbatim>\<open>d.get(k)\<close> on a dict: the value, or \<^verbatim>\<open>None\<close> when the key is absent.\<close>

definition dict_get :: "(string \<times> json) list \<Rightarrow> string \<Rightarrow> json" where
  "dict_get kvs k = (case map_of kvs k of None \<Rightarrow> JNull | Some v \<Rightarrow> v)"

subsection \<open>Decimal text of integers (\<^verbatim>\<open>str(n)\<close> inside f-strings)\<close>

definition digit_char :: "nat \<Rightarrow> char" where
  "digit_char d = ''0123456789'' ! d"

function str_nat :: "nat \<Rightarrow> string" where
  "str_nat n = (if n < 10 then [digit_char n] else str_nat (n div 10) @ [digit_char (n mod 10)])"
  by pat_completeness auto
termination
  by (relation "measure id") auto

declare str_nat.simps [simp del]

definition str_int :: "int \<Rightarrow> string" where
  "str_int i = (if i < 0 then CHR ''-'' # str_nat (nat (- i)) else str_nat (nat i))"

section \<open>The tester object\<close>

text \<open>One entry of \<^verbatim>\<open>self.results\<close>, the dict built by \<^verbatim>\<open>log_result\<close>.\<close>

record outcome =
  test :: string
  status :: string
  details :: string
  timestamp :: string

datatype verb = GET | POST | PUT | PATCH | DELETE

text \<open>
  One call into the \<^verbatim>\<open>requests\<close> library: \<^verbatim>\<open>requests.get(url, headers=..., timeout=10)\<close>,
  \<^verbatim>\<open>requests.post(url, json=..., headers=..., timeout=10)\<close> and so on.
\<close>

record request =
  req_verb :: verb
  req_url :: string
  req_json :: "json option"
  req_headers :: "(string \<times> string) list option"
  req_timeout :: nat

text \<open>
  A \<^verbatim>\<open>requests.Response\<close>: \<open>body\<close> is what \<^verbatim>\<open>response.json()\<close> does, \<open>Inr j\<close> when it returns
  the document \<open>j\<close> and \<open>Inl e\<close> when it raises \<open>e\<close>. On a text that is not JSON it raises
  \<open>JSONDecodeError\<close> when \<^verbatim>\<open>requests\<close> decodes with the standard library,
  \<open>SimplejsonJSONDecodeError\<close> when \<^verbatim>\<open>simplejson\<close> is installed, and \<open>RecursionError\<close> when
  the text nests deeper than the interpreter's recursion limit. \<open>elapsed\<close> is
  \<^verbatim>\<open>response.elapsed.total_seconds()\<close> already rendered with \<^verbatim>\<open>:.2f\<close>.
\<close>

record response =
  status_code :: int
  text_of :: string
  body :: "py_error + json"
  elapsed :: string

text \<open>
  What the network answers to a call: \<open>Inl e\<close> is a raised \<^verbatim>\<open>RequestException\<close> with
  \<^verbatim>\<open>str(e) = e\<close> (connection refused, DNS failure, timeout), \<open>Inr r\<close> a received response.
\<close>

type_synonym reply = "string + response"

text \<open>
  Everything outside the process: the server answers a call depending on the calls made before
  it, the clock gives the text of \<^verbatim>\<open>datetime.now()\<close> for the log entry written at a given
  position, and \<open>repr_of\<close> is Python's \<^verbatim>\<open>str()\<close> on floats, lists and dicts.
\<close>

record env =
  server :: "request list \<Rightarrow> request \<Rightarrow> reply"
  clock :: "nat \<Rightarrow> string"
  repr_of :: "json \<Rightarrow> string"

text \<open>
  The fields of \<^verbatim>\<open>APITester\<close>, and the calls handed to \<^verbatim>\<open>requests\<close> so far (a history
  the source does not keep; it is what the server has seen).
\<close>

record tester =
  base_url :: string
  results :: "outcome list"
  issued :: "request list"

text \<open>\<^verbatim>\<open>str.rstrip(c)\<close> with a one-character argument.\<close>

definition rstrip :: "char \<Rightarrow> string \<Rightarrow> string" where
  "rstrip c s = rev (dropWhile (\<lambda>x. x = c) (rev s))"

text \<open>\<^verbatim>\<open>APITester.__init__\<close>\<close>

definition init :: "string \<Rightarrow> tester" where
  "init url = \<lparr>base_url = rstrip (CHR ''/'') url, results = [], issued = []\<rparr>"

text \<open>\<^verbatim>\<open>APITester.log_result\<close>\<close>

definition log_result :: "env \<Rightarrow> tester \<Rightarrow> string \<Rightarrow> string \<Rightarrow> string \<Rightarrow> tester" where
  "log_result E t test_name st det =
     t\<lparr>results := results t @
          [\<lparr>test = test_name, status = st, details = det,
            timestamp = clock E (length (results t))\<rparr>]\<rparr>"

section \<open>Summary\<close>

record summary =
  total :: int
  passed :: int
  failed :: int
  pass_rate :: rat

text \<open>\<^verbatim>\<open>sum(1 for r in self.results if r['status'] == 'PASS')\<close>\<close>

definition count_pass :: "outcome list \<Rightarrow> int" where
  "count_pass rs = int (length (filter (\<lambda>r. status r = ''PASS'') rs))"

text \<open>
  \<^verbatim>\<open>APITester.get_summary\<close> (App/V1.py, App/V4.py). \<open>fl\<close> rounds a rational to the nearest
  double: \<^verbatim>\<open>passed/total\<close> is the rounded quotient, and \<^verbatim>\<open>* 100\<close> rounds once more.
\<close>

definition get_summary :: "(rat \<Rightarrow> rat) \<Rightarrow> tester \<Rightarrow> summary" where
  "get_summary fl t =
     (let total = int (length (results t));
          passed = count_pass (results t);
          failed = total - passed
      in \<lparr>total = total, passed = passed, failed = failed,
          pass_rate = (if total > 0 then fl (fl (of_int passed / of_int total) * 100) else 0)\<rparr>)"

text \<open>\<^verbatim>\<open>a / b\<close> on Python ints.\<close>

definition py_truediv :: "int \<Rightarrow> int \<Rightarrow> py_error + rat" where
  "py_truediv a b = (if b = 0 then Inl ZeroDivisionError else Inr (of_int a / of_int b))"

text \<open>
  \<^verbatim>\<open>APITester.print_summary\<close> (Manual_scripts/auto_ap.py): the two percentages it prints,
  \<^verbatim>\<open>passed/total*100\<close> and \<^verbatim>\<open>failed/total*100\<close>, before \<^verbatim>\<open>:.1f\<close> renders them. The report
  is console output and a file; its numbers are what is kept here.
\<close>

definition print_summary :: "tester \<Rightarrow> py_error + (rat \<times> rat)" where
  "print_summary t =
     (let total = int (length (results t));
          passed = count_pass (results t);
          failed = total - passed
      in case py_truediv passed total of
           Inl e \<Rightarrow> Inl e
         | Inr p \<Rightarrow>
             (case py_truediv failed total of
                Inl e \<Rightarrow> Inl e
              | Inr f \<Rightarrow> Inr (p * 100, f * 100)))"

section \<open>Issuing one request and judging the answer\<close>

text \<open>The call into \<^verbatim>\<open>requests\<close>: the server answers, and has now seen the call.\<close>

definition send :: "env \<Rightarrow> tester \<Rightarrow> request \<Rightarrow> reply \<times> tester" where
  "send E t rq = (server E (issued t) rq, t\<lparr>issued := issued t @ [rq]\<rparr>)"

text \<open>
  The part every test method shares, from the status comparison to the \<^verbatim>\<open>except\<close> clause.
  \<open>quoted\<close> is the length at which the FAIL detail quotes \<^verbatim>\<open>response.text\<close> (\<^verbatim>\<open>[:200]\<close>,
  \<^verbatim>\<open>[:150]\<close>), \<open>None\<close> where the method does not quote it.
\<close>

definition judge ::
  "env \<Rightarrow> tester \<Rightarrow> string \<Rightarrow> int \<Rightarrow> nat option \<Rightarrow> reply \<Rightarrow> response option \<times> tester" where
  "judge E t test_name expected_status quoted rep =
     (case rep of
        Inr r \<Rightarrow>
          if status_code r = expected_status then
            (Some r,
             log_result E t test_name ''PASS''
               (''Status: '' @ str_int (status_code r) @ '', Response time: '' @ elapsed r @ ''s''))
          else
            (None,
             log_result E t test_name ''FAIL''
               (''Expected status '' @ str_int expected_status @ '', got '' @ str_int (status_code r) @
                (case quoted of None \<Rightarrow> [] | Some n \<Rightarrow> ''. Response: '' @ take n (text_of r))))
      | Inl e \<Rightarrow> (None, log_result E t test_name ''FAIL'' (''Error: '' @ e)))"

text \<open>\<^verbatim>\<open>if headers is None: headers = {'Content-Type': 'application/json'}\<close>\<close>

definition default_headers :: "(string \<times> string) list option \<Rightarrow> (string \<times> string) list option" where
  "default_headers headers =
     (case headers of None \<Rightarrow> Some [(''Content-Type'', ''application/json'')] | Some h \<Rightarrow> Some h)"

subsection \<open>The five methods of App/V1.py and Manual_scripts/auto_ap.py\<close>

definition test_get ::
  "env \<Rightarrow> tester \<Rightarrow> string \<Rightarrow> int \<Rightarrow> (string \<times> string) list option \<Rightarrow> response option \<times> tester" where
  "test_get E t endpoint expected_status headers =
     (let url = base_url t @ endpoint;
          test_name = ''GET '' @ url;
          (rep, t1) = send E t \<lparr>req_verb = GET, req_url = url, req_json = None,
                                req_headers = headers, req_timeout = 10\<rparr>
      in judge E t1 test_name expected_status None rep)"





subsection \<open>The generic method of App/V4.py\<close>

text \<open>The \<^verbatim>\<open>if method == "GET" ... elif ...\<close> chain: the verb and whether \<^verbatim>\<open>json=data\<close> is passed.\<close>

definition dispatch :: "string \<Rightarrow> (verb \<times> bool) option" where
  "dispatch method =
     (if method = ''GET'' then Some (GET, False)
      else if method = ''POST'' then Some (POST, True)
      else if method = ''PUT'' then Some (PUT, True)
      else if method = ''PATCH'' then Some (PATCH, True)
      else if method = ''DELETE'' then Some (DELETE, False)
      else None)"

definition test_request ::
  "env \<Rightarrow> tester \<Rightarrow> string \<Rightarrow> string \<Rightarrow> json option \<Rightarrow> int \<Rightarrow> (string \<times> string) list option \<Rightarrow>
   string option \<Rightarrow> response option \<times> tester" where
  "test_request E t method endpoint data expected_status headers test_name =
     (let url = base_url t @ endpoint;
          test_name = (case test_name of None \<Rightarrow> method @ '' '' @ url | Some n \<Rightarrow> n);
          headers = default_headers headers
      in case dispatch method of
           Some (v, with_json) \<Rightarrow>
             (let (rep, t1) = send E t \<lparr>req_verb = v, req_url = url,
                                        req_json = (if with_json then data else None),
                                        req_headers = headers, req_timeout = 10\<rparr>
              in judge E t1 test_name expected_status (Some 150) rep)
         | None \<Rightarrow> (None, log_result E t test_name ''FAIL'' (''Unsupported method: '' @ method)))"

section \<open>The data-driven runner (App/V4.py)\<close>






section \<open>Field validation\<close>

text \<open>\<^verbatim>\<open>s.split(c)\<close>: every occurrence of \<open>c\<close> separates, empty pieces are kept.\<close>

fun split_on :: "char \<Rightarrow> string \<Rightarrow> string list" where
  "split_on c [] = [[]]"
| "split_on c (x # xs) =
     (if x = c then [] # split_on c xs
      else (case split_on c xs of [] \<Rightarrow> [[x]] | p # ps \<Rightarrow> (x # p) # ps))"

text \<open>\<^verbatim>\<open>sep.join(xs)\<close>\<close>

fun join :: "string \<Rightarrow> string list \<Rightarrow> string" where
  "join sep [] = []"
| "join sep [x] = x"
| "join sep (x # y # ys) = x @ sep @ join sep (y # ys)"

fun is_prefix :: "string \<Rightarrow> string \<Rightarrow> bool" where
  "is_prefix [] ys = True"
| "is_prefix (x # xs) [] = False"
| "is_prefix (x # xs) (y # ys) = (x = y \<and> is_prefix xs ys)"

text \<open>\<^verbatim>\<open>p in s\<close> on two strings.\<close>

fun is_substring :: "string \<Rightarrow> string \<Rightarrow> bool" where
  "is_substring p [] = (p = [])"
| "is_substring p (c # cs) = (is_prefix p (c # cs) \<or> is_substring p cs)"

text \<open>
  \<^verbatim>\<open>field in data\<close> for a string \<open>field\<close>: a key of a dict, an element of a list, a substring of
  a string; on \<^verbatim>\<open>None\<close>, a bool or a number Python raises \<^verbatim>\<open>TypeError\<close>.
\<close>

definition py_in :: "string \<Rightarrow> json \<Rightarrow> py_error + bool" where
  "py_in field data =
     (case data of
        JObj kvs \<Rightarrow> Inr (field \<in> set (map fst kvs))
      | JArr xs \<Rightarrow> Inr (JStr field \<in> set xs)
      | JStr s \<Rightarrow> Inr (is_substring field s)
      | _ \<Rightarrow> Inl TypeError)"

text \<open>
  The inner \<^verbatim>\<open>for part in parts\<close> loop: \<open>True\<close> when it runs to its end, \<open>False\<close> when it
  breaks because \<open>current\<close> is not a dict or lacks the part.
\<close>

fun descend :: "string list \<Rightarrow> json \<Rightarrow> bool" where
  "descend [] current = True"
| "descend (part # parts) current =
     (case current of
        JObj kvs \<Rightarrow> (case map_of kvs part of Some v \<Rightarrow> descend parts v | None \<Rightarrow> False)
      | _ \<Rightarrow> False)"

text \<open>The body of \<^verbatim>\<open>for field in expected_fields\<close>: whether the field is appended to the missing ones.\<close>

definition field_missing :: "json \<Rightarrow> string \<Rightarrow> py_error + bool" where
  "field_missing data field =
     (if CHR ''.'' \<in> set field then Inr (\<not> descend (split_on (CHR ''.'') field) data)
      else (case py_in field data of Inl e \<Rightarrow> Inl e | Inr b \<Rightarrow> Inr (\<not> b)))"

fun collect_missing :: "json \<Rightarrow> string list \<Rightarrow> string list \<Rightarrow> py_error + string list" where
  "collect_missing data [] missing_fields = Inr missing_fields"
| "collect_missing data (field # rest) missing_fields =
     (case field_missing data field of
        Inl e \<Rightarrow> Inl e
      | Inr m \<Rightarrow> collect_missing data rest (if m then missing_fields @ [field] else missing_fields))"

text \<open>
  \<^verbatim>\<open>APITester.validate_response_data\<close>. The \<^verbatim>\<open>except json.JSONDecodeError\<close> clause catches
  that class only; any other exception of \<^verbatim>\<open>response.json()\<close>, and a \<^verbatim>\<open>TypeError\<close> of the
  membership test, leaves the method.
\<close>

definition validate_response_data ::
  "response \<Rightarrow> string list option \<Rightarrow> py_error + (bool \<times> string)" where
  "validate_response_data r expected_fields =
     (case body r of
        Inl e \<Rightarrow> if e = JSONDecodeError then Inr (False, ''Invalid JSON response'') else Inl e
      | Inr data \<Rightarrow>
          (case expected_fields of
             Some (f # fs) \<Rightarrow>
               (case collect_missing data (f # fs) [] of
                  Inl e \<Rightarrow> Inl e
                | Inr missing_fields \<Rightarrow>
                    if missing_fields \<noteq> [] then
                      Inr (False, ''Missing fields: '' @ join '', '' missing_fields)
                    else Inr (True, ''All expected fields present''))
           | _ \<Rightarrow> Inr (True, ''Response validated'')))"

section \<open>The CRUD run (App/V1.py)\<close>



definition extract_resource_id :: "json option \<Rightarrow> json" where
  "extract_resource_id b =
     (case b of
        Some (JObj response_data) \<Rightarrow>
          if py_truthy (dict_get response_data ''id'') then dict_get response_data ''id''
          else if py_truthy (dict_get response_data ''_id'') then dict_get response_data ''_id''
          else if py_truthy (dict_get response_data ''uuid'') then dict_get response_data ''uuid''
          else (case map_of response_data ''data'' of
                  None \<Rightarrow> JNull
                | Some (JObj d) \<Rightarrow> dict_get d ''id''
                | Some _ \<Rightarrow> JNull)
      | _ \<Rightarrow> JNull)"












section \<open>Outcomes against requests\<close>






section \<open>Sample surroundings\<close>

text \<open>A network on which every call fails, a server that answers 404 to everything, and a
  creation response whose body is not JSON.\<close>

definition refusing_env :: env where
  "refusing_env = \<lparr>server = (\<lambda>hist rq. Inl ''Connection refused''),
                   clock = (\<lambda>n. ''2024-01-01 00:00:00''), repr_of = (\<lambda>j. [])\<rparr>"

definition not_found :: response where
  "not_found = \<lparr>status_code = 404, text_of = ''Not Found'', body = Inl JSONDecodeError,
                 elapsed = ''0.01''\<rparr>"

definition not_found_env :: env where
  "not_found_env = \<lparr>server = (\<lambda>hist rq. Inr not_found),
                    clock = (\<lambda>n. ''2024-01-01 00:00:00''), repr_of = (\<lambda>j. [])\<rparr>"

definition garbled :: response where
  "garbled = \<lparr>status_code = 201, text_of = ''<html>created</html>'', body = Inl JSONDecodeError,
               elapsed = ''0.02''\<rparr>"

text \<open>A response whose text is 100000 opening brackets: not JSON, and too deep to decode.\<close>

definition deeply_nested :: response where
  "deeply_nested = \<lparr>status_code = 201, text_of = replicate 100000 (CHR ''[''),
                     body = Inl RecursionError, elapsed = ''0.02''\<rparr>"

section \<open>What one call does to the tester\<close>

lemma log_result_results:
  "results (log_result E t n s d) =
     results t @ [\<lparr>test = n, status = s, details = d, timestamp = clock E (length (results t))\<rparr>]"
  by (simp add: log_result_def)

lemma log_result_issued: "issued (log_result E t n s d) = issued t"
  by (simp add: log_result_def)


lemma judge_fst:
  "fst (judge E t n x q rep) =
     (case rep of Inl e \<Rightarrow> None | Inr r \<Rightarrow> if status_code r = x then Some r else None)"
  by (simp add: judge_def split: sum.splits)

lemma judge_snd:
  "\<exists>d. snd (judge E t n x q rep) =
         log_result E t n (if fst (judge E t n x q rep) = None then ''FAIL'' else ''PASS'') d"
  by (cases rep) (auto simp: judge_def)


lemma judge_issued: "issued (snd (judge E t n x q rep)) = issued t"
  using judge_snd [of E t n x q rep] by (auto simp: log_result_issued)


lemma test_get_judge:
  "test_get E t e x h =
     judge E (t\<lparr>issued := issued t @ [\<lparr>req_verb = GET, req_url = base_url t @ e, req_json = None,
                                        req_headers = h, req_timeout = 10\<rparr>]\<rparr>)
       (''GET '' @ base_url t @ e) x None
       (server E (issued t) \<lparr>req_verb = GET, req_url = base_url t @ e, req_json = None,
                              req_headers = h, req_timeout = 10\<rparr>)"
  by (simp add: test_get_def send_def Let_def)





lemma test_request_supported:
  "dispatch m = Some (v, b) \<Longrightarrow>
   test_request E t m e d x h n =
     judge E (t\<lparr>issued := issued t @ [\<lparr>req_verb = v, req_url = base_url t @ e,
                                        req_json = (if b then d else None),
                                        req_headers = default_headers h, req_timeout = 10\<rparr>]\<rparr>)
       (case n of None \<Rightarrow> m @ '' '' @ base_url t @ e | Some k \<Rightarrow> k) x (Some 150)
       (server E (issued t) \<lparr>req_verb = v, req_url = base_url t @ e,
                              req_json = (if b then d else None),
                              req_headers = default_headers h, req_timeout = 10\<rparr>)"
  by (simp add: test_request_def send_def Let_def)





lemma judge_mismatch_details:
  "status_code r \<noteq> x \<Longrightarrow>
   details (last (results (snd (judge E t n x q (Inr r))))) =
     ''Expected status '' @ str_int x @ '', got '' @ str_int (status_code r) @
     (case q of None \<Rightarrow> [] | Some k \<Rightarrow> ''. Response: '' @ take k (text_of r))"
  by (simp add: judge_def log_result_results)

lemma judge_error_details:
  "details (last (results (snd (judge E t n x q (Inl err))))) = ''Error: '' @ err"
  by (simp add: judge_def log_result_results)

section \<open>The data-driven runner\<close>






section \<open>Identity extraction\<close>

text \<open>
  C3, as amended. The candidates are tried in the order \<^verbatim>\<open>id\<close>, \<^verbatim>\<open>_id\<close>, \<^verbatim>\<open>uuid\<close>, nested
  \<^verbatim>\<open>data.id\<close>, and the first one that is true in Python's sense wins (the last is taken as it
  is); a body with both \<^verbatim>\<open>id\<close> and \<^verbatim>\<open>_id\<close> yields the value under \<^verbatim>\<open>id\<close> when that value is
  true in Python's sense.
\<close>

theorem extract_resource_id_priority:
  "(py_truthy (dict_get d ''id'') \<longrightarrow> extract_resource_id (Some (JObj d)) = dict_get d ''id'') \<and>
   (\<not> py_truthy (dict_get d ''id'') \<and> py_truthy (dict_get d ''_id'') \<longrightarrow>
      extract_resource_id (Some (JObj d)) = dict_get d ''_id'') \<and>
   (\<not> py_truthy (dict_get d ''id'') \<and> \<not> py_truthy (dict_get d ''_id'') \<and> py_truthy (dict_get d ''uuid'') \<longrightarrow>
      extract_resource_id (Some (JObj d)) = dict_get d ''uuid'') \<and>
   (\<not> py_truthy (dict_get d ''id'') \<and> \<not> py_truthy (dict_get d ''_id'') \<and> \<not> py_truthy (dict_get d ''uuid'') \<longrightarrow>
      (\<forall>inner. map_of d ''data'' = Some (JObj inner) \<longrightarrow>
         extract_resource_id (Some (JObj d)) = dict_get inner ''id'') \<and>
      (map_of d ''data'' = None \<longrightarrow> extract_resource_id (Some (JObj d)) = JNull)) \<and>
   (\<forall>v w. map_of d ''id'' = Some v \<and> map_of d ''_id'' = Some w \<and> py_truthy v \<longrightarrow>
      extract_resource_id (Some (JObj d)) = v)"
  by (auto simp: extract_resource_id_def dict_get_def)

theorem extract_resource_id_priority_witness:
  "py_truthy (dict_get [(''id'', JInt 7), (''_id'', JStr ''abc'')] ''id'') \<and>
   extract_resource_id (Some (JObj [(''id'', JInt 7), (''_id'', JStr ''abc'')])) = JInt 7 \<and>
   extract_resource_id (Some (JObj [(''_id'', JStr ''abc''), (''uuid'', JStr ''u'')])) = JStr ''abc'' \<and>
   extract_resource_id (Some (JObj [(''data'', JObj [(''id'', JInt 9)])])) = JInt 9"
  using extract_resource_id_priority [of "[(''id'', JInt 7), (''_id'', JStr ''abc'')]"]
        extract_resource_id_priority [of "[(''_id'', JStr ''abc''), (''uuid'', JStr ''u'')]"]
        extract_resource_id_priority [of "[(''data'', JObj [(''id'', JInt 9)])]"]
  by (simp add: dict_get_def)

text \<open>With \<^verbatim>\<open>{"id": 0, "_id": "abc"}\<close> the key \<^verbatim>\<open>id\<close> is present and not null, and \<^verbatim>\<open>_id\<close> wins.\<close>

theorem extract_resource_id_falsy_id:
  "extract_resource_id (Some (JObj [(''id'', JInt 0), (''_id'', JStr ''abc'')])) = JStr ''abc''"
  by (simp add: extract_resource_id_def dict_get_def)

section \<open>The summary\<close>

lemma get_summary_empty: "results t = [] \<Longrightarrow> pass_rate (get_summary fl t) = 0"
  by (simp add: get_summary_def Let_def)

lemma get_summary_rate:
  "results t \<noteq> [] \<Longrightarrow>
   pass_rate (get_summary fl t) =
     fl (fl (of_int (passed (get_summary fl t)) / of_int (total (get_summary fl t))) * 100)"
  by (simp add: get_summary_def Let_def)

text \<open>Three quarters and 75 are doubles, so rounding leaves them as they are.\<close>

lemma get_summary_three_of_four:
  assumes q: "fl (3 / 4) = 3 / 4" and p: "fl 75 = 75"
  shows "pass_rate (get_summary fl \<lparr>base_url = b, results =
      [\<lparr>test = n1, status = ''PASS'', details = d1, timestamp = s1\<rparr>,
       \<lparr>test = n2, status = ''FAIL'', details = d2, timestamp = s2\<rparr>,
       \<lparr>test = n3, status = ''PASS'', details = d3, timestamp = s3\<rparr>,
       \<lparr>test = n4, status = ''PASS'', details = d4, timestamp = s4\<rparr>], issued = i\<rparr>) = 75"
proof -
  have "fl (fl (3 / 4) * 100) = fl 75" by (simp only: q) simp
  then have r: "fl (fl (3 / 4) * 100) = 75" by (simp only: p)
  have "pass_rate (get_summary fl \<lparr>base_url = b, results =
      [\<lparr>test = n1, status = ''PASS'', details = d1, timestamp = s1\<rparr>,
       \<lparr>test = n2, status = ''FAIL'', details = d2, timestamp = s2\<rparr>,
       \<lparr>test = n3, status = ''PASS'', details = d3, timestamp = s3\<rparr>,
       \<lparr>test = n4, status = ''PASS'', details = d4, timestamp = s4\<rparr>], issued = i\<rparr>) =
        fl (fl (3 / 4) * 100)"
    by (simp add: get_summary_def Let_def count_pass_def)
  then show ?thesis by (simp only: r)
qed

text \<open>
  C4. \<^verbatim>\<open>get_summary\<close> computes the rate as the claim says (the three lemmas above). The summary
  printed by \<^verbatim>\<open>print_summary\<close> divides without the guard: on a tester that has logged nothing it
  raises \<^verbatim>\<open>ZeroDivisionError\<close>.
\<close>

theorem print_summary_empty_log:
  "print_summary (init ''http://127.0.0.1:5000/products'') = Inl ZeroDivisionError"
  by (simp add: print_summary_def init_def count_pass_def py_truediv_def)

section \<open>Field validation on a body that is not JSON\<close>

text \<open>
  When \<^verbatim>\<open>response.json()\<close> raises \<^verbatim>\<open>json.JSONDecodeError\<close>, the answer is
  \<^verbatim>\<open>(False, "Invalid JSON response")\<close> whatever fields are asked for, and no document yields
  that message.
\<close>

lemma validate_invalid_json:
  "(body r = Inl JSONDecodeError \<longrightarrow>
      validate_response_data r expected_fields = Inr (False, ''Invalid JSON response'')) \<and>
   (body r = Inr j \<longrightarrow> validate_response_data r expected_fields \<noteq> Inr (ok, ''Invalid JSON response''))"
  by (auto simp: validate_response_data_def split: option.splits list.splits sum.splits)

lemma validate_invalid_json_garbled:
  "validate_response_data garbled (Some [''id'', ''data.id'']) = Inr (False, ''Invalid JSON response'')"
  by (simp add: validate_response_data_def garbled_def)

text \<open>Every other exception of \<^verbatim>\<open>response.json()\<close> leaves the method.\<close>

lemma validate_uncaught:
  "body r = Inl e \<Longrightarrow> e \<noteq> JSONDecodeError \<Longrightarrow> validate_response_data r expected_fields = Inl e"
  by (simp add: validate_response_data_def)

text \<open>
  C7. A field check on a body that is not JSON must end in the \<^verbatim>\<open>Invalid JSON response\<close>
  failure and never in an exception. On the text of 100000 opening brackets
  \<^verbatim>\<open>response.json()\<close> raises \<^verbatim>\<open>RecursionError\<close>, the \<^verbatim>\<open>except json.JSONDecodeError\<close> clause does
  not catch it, and it reaches the caller.
\<close>

theorem validate_deeply_nested_raises:
  "validate_response_data deeply_nested (Some [''id'']) = Inl RecursionError"
  by (simp add: validate_response_data_def deeply_nested_def)

section \<open>The test methods, one call at a time\<close>























section \<open>Base URL and request URLs\<close>

lemma rstrip_decomp: "\<exists>k. s = rstrip c s @ replicate k c"
proof -
  let ?tw = "takeWhile (\<lambda>x. x = c) (rev s)"
  have "?tw = replicate (length ?tw) c"
    by (metis (mono_tags, lifting) replicate_length_same set_takeWhileD)
  then have "rev s = replicate (length ?tw) c @ dropWhile (\<lambda>x. x = c) (rev s)"
    by (metis takeWhile_dropWhile_id)
  then have "s = rev (dropWhile (\<lambda>x. x = c) (rev s)) @ replicate (length ?tw) c"
    by (metis rev_append rev_replicate rev_rev_ident)
  then show ?thesis unfolding rstrip_def by blast
qed

lemma rstrip_last: "rstrip c s \<noteq> [] \<Longrightarrow> last (rstrip c s) \<noteq> c"
  unfolding rstrip_def
  by (metis (mono_tags, lifting) hd_dropWhile last_rev rev_is_Nil_conv)

lemma rstrip_id: "s = [] \<or> last s \<noteq> c \<Longrightarrow> rstrip c s = s"
  unfolding rstrip_def
  by (cases s rule: rev_cases) auto

lemma rstrip_snoc_same: "rstrip c (s @ [c]) = rstrip c s"
  by (simp add: rstrip_def)

lemma test_request_urls:
  assumes "dispatch m \<noteq> None"
  shows "map req_url (issued (snd (test_request E t m e d x h n))) =
           map req_url (issued t) @ [base_url t @ e]"
proof -
  from assms obtain v b where eq: "dispatch m = Some (v, b)" by (cases "dispatch m") auto
  show ?thesis by (simp add: test_request_supported [OF eq] judge_issued)
qed

text \<open>
  C9, as amended. The constructor removes every trailing \<^verbatim>\<open>/\<close> of the supplied base URL and
  nothing else: the stored base is the supplied one without its final run of slashes, it does
  not end in a slash, and a base ending in exactly one slash loses that one. Every request of
  \<^verbatim>\<open>test_request\<close> goes to the stored base followed by the endpoint, unchanged.
\<close>

theorem base_url_rstrip_and_concat:
  "(\<exists>k. b = base_url (init b) @ replicate k (CHR ''/'')) \<and>
   (base_url (init b) \<noteq> [] \<longrightarrow> last (base_url (init b)) \<noteq> CHR ''/'') \<and>
   (b = [] \<or> last b \<noteq> CHR ''/'' \<longrightarrow> base_url (init (b @ ''/'')) = b) \<and>
   (dispatch m \<noteq> None \<longrightarrow>
      map req_url (issued (snd (test_request E t m e d x h n))) =
        map req_url (issued t) @ [base_url t @ e])"
proof -
  have 1: "\<exists>k. b = base_url (init b) @ replicate k (CHR ''/'')"
    using rstrip_decomp [of b "CHR ''/''"] by (simp add: init_def)
  have 2: "base_url (init b) \<noteq> [] \<longrightarrow> last (base_url (init b)) \<noteq> CHR ''/''"
    using rstrip_last [of "CHR ''/''" b] by (simp add: init_def)
  have 3: "b = [] \<or> last b \<noteq> CHR ''/'' \<longrightarrow> base_url (init (b @ ''/'')) = b"
    using rstrip_id [of b "CHR ''/''"] rstrip_snoc_same [of "CHR ''/''" b] by (auto simp: init_def)
  have 4: "dispatch m \<noteq> None \<longrightarrow>
      map req_url (issued (snd (test_request E t m e d x h n))) =
        map req_url (issued t) @ [base_url t @ e]"
    using test_request_urls by blast
  from 1 2 3 4 show ?thesis by blast
qed

theorem base_url_rstrip_and_concat_witness:
  "base_url (init ''http://x/items/'') = ''http://x/items'' \<and>
   map req_url (issued (snd (test_request not_found_env (init ''http://x/items/'') ''PUT'' ''/9''
      None 200 None None))) = [''http://x/items/9'']"
  using base_url_rstrip_and_concat [of "''http://x/items''" "''PUT''" not_found_env
          "init ''http://x/items/''" "''/9''" None 200 None None]
  by (simp add: init_def rstrip_def dispatch_def)

text \<open>A base ending in two slashes loses both, not one.\<close>

theorem base_url_all_trailing_slashes:
  "base_url (init ''http://x/items//'') = ''http://x/items'' \<and>
   base_url (init ''http://x/items//'') \<noteq> ''http://x/items/''"
  by (simp add: init_def rstrip_def)

section \<open>Outcomes and requests\<close>





























section \<open>The CRUD run when creation fails\<close>




section \<open>What the test methods return\<close>













text \<open>
  C5, as amended. When a response is received, \<^verbatim>\<open>test_get\<close> and \<^verbatim>\<open>test_request\<close> return it
  exactly when its status is the expected one (a 4xx or 5xx included, when expected);
  otherwise they return \<^verbatim>\<open>None\<close> and the detail names both statuses. Only a raised
  \<^verbatim>\<open>RequestException\<close> is recorded with the detail \<^verbatim>\<open>Error: \<close> and its text.
\<close>

theorem response_returned_when_expected:
  "(\<forall>r. server E (issued t)
          \<lparr>req_verb = GET, req_url = base_url t @ e, req_json = None, req_headers = h,
            req_timeout = 10\<rparr> = Inr r \<longrightarrow>
        fst (test_get E t e x h) = (if status_code r = x then Some r else None) \<and>
        (status_code r \<noteq> x \<longrightarrow>
           details (last (results (snd (test_get E t e x h)))) =
             ''Expected status '' @ str_int x @ '', got '' @ str_int (status_code r))) \<and>
   (\<forall>err. server E (issued t)
          \<lparr>req_verb = GET, req_url = base_url t @ e, req_json = None, req_headers = h,
            req_timeout = 10\<rparr> = Inl err \<longrightarrow>
        fst (test_get E t e x h) = None \<and>
        details (last (results (snd (test_get E t e x h)))) = ''Error: '' @ err) \<and>
   (\<forall>v b r. dispatch m = Some (v, b) \<and>
        server E (issued t)
          \<lparr>req_verb = v, req_url = base_url t @ e, req_json = (if b then d else None),
            req_headers = default_headers h, req_timeout = 10\<rparr> = Inr r \<longrightarrow>
        fst (test_request E t m e d x h n) = (if status_code r = x then Some r else None) \<and>
        (status_code r \<noteq> x \<longrightarrow>
           details (last (results (snd (test_request E t m e d x h n)))) =
             ''Expected status '' @ str_int x @ '', got '' @ str_int (status_code r) @
             ''. Response: '' @ take 150 (text_of r))) \<and>
   (\<forall>v b err. dispatch m = Some (v, b) \<and>
        server E (issued t)
          \<lparr>req_verb = v, req_url = base_url t @ e, req_json = (if b then d else None),
            req_headers = default_headers h, req_timeout = 10\<rparr> = Inl err \<longrightarrow>
        fst (test_request E t m e d x h n) = None \<and>
        details (last (results (snd (test_request E t m e d x h n)))) = ''Error: '' @ err)"
proof -
  have g1: "\<forall>r. server E (issued t)
          \<lparr>req_verb = GET, req_url = base_url t @ e, req_json = None, req_headers = h,
            req_timeout = 10\<rparr> = Inr r \<longrightarrow>
        fst (test_get E t e x h) = (if status_code r = x then Some r else None) \<and>
        (status_code r \<noteq> x \<longrightarrow>
           details (last (results (snd (test_get E t e x h)))) =
             ''Expected status '' @ str_int x @ '', got '' @ str_int (status_code r))"
    by (simp add: test_get_judge judge_fst judge_mismatch_details)
  have g2: "\<forall>err. server E (issued t)
          \<lparr>req_verb = GET, req_url = base_url t @ e, req_json = None, req_headers = h,
            req_timeout = 10\<rparr> = Inl err \<longrightarrow>
        fst (test_get E t e x h) = None \<and>
        details (last (results (snd (test_get E t e x h)))) = ''Error: '' @ err"
    by (simp add: test_get_judge judge_fst judge_error_details)
  have r1: "\<forall>v b r. dispatch m = Some (v, b) \<and>
        server E (issued t)
          \<lparr>req_verb = v, req_url = base_url t @ e, req_json = (if b then d else None),
            req_headers = default_headers h, req_timeout = 10\<rparr> = Inr r \<longrightarrow>
        fst (test_request E t m e d x h n) = (if status_code r = x then Some r else None) \<and>
        (status_code r \<noteq> x \<longrightarrow>
           details (last (results (snd (test_request E t m e d x h n)))) =
             ''Expected status '' @ str_int x @ '', got '' @ str_int (status_code r) @
             ''. Response: '' @ take 150 (text_of r))"
    by (simp add: test_request_supported judge_fst judge_mismatch_details)
  have r2: "\<forall>v b err. dispatch m = Some (v, b) \<and>
        server E (issued t)
          \<lparr>req_verb = v, req_url = base_url t @ e, req_json = (if b then d else None),
            req_headers = default_headers h, req_timeout = 10\<rparr> = Inl err \<longrightarrow>
        fst (test_request E t m e d x h n) = None \<and>
        details (last (results (snd (test_request E t m e d x h n)))) = ''Error: '' @ err"
    by (simp add: test_request_supported judge_fst judge_error_details)
  show ?thesis
    by (intro conjI) (rule g1 g2 r1 r2)+
qed

theorem response_returned_when_expected_witness:
  "server not_found_env (issued (init ''http://x/items''))
      \<lparr>req_verb = GET, req_url = base_url (init ''http://x/items'') @ ''/7'', req_json = None,
        req_headers = None, req_timeout = 10\<rparr> = Inr not_found \<and>
   fst (test_get not_found_env (init ''http://x/items'') ''/7'' 404 None) = Some not_found \<and>
   server refusing_env (issued (init ''http://x/items''))
      \<lparr>req_verb = GET, req_url = base_url (init ''http://x/items'') @ ''/7'', req_json = None,
        req_headers = None, req_timeout = 10\<rparr> = Inl ''Connection refused'' \<and>
   fst (test_get refusing_env (init ''http://x/items'') ''/7'' 404 None) = None \<and>
   details (last (results (snd (test_get refusing_env (init ''http://x/items'') ''/7'' 404 None)))) =
     ''Error: Connection refused'' \<and>
   dispatch ''PUT'' = Some (PUT, True) \<and>
   fst (test_request not_found_env (init ''http://x/items'') ''PUT'' ''/9'' None 200 None None) = None \<and>
   details (last (results (snd (test_request not_found_env (init ''http://x/items'') ''PUT'' ''/9'' None 200 None None)))) =
     ''Expected status 200, got 404. Response: Not Found''"
proof -
  have s200: "str_int 200 = ''200''" and s404: "str_int 404 = ''404''"
    by (simp_all add: str_int_def str_nat.simps digit_char_def)
  note a = response_returned_when_expected [where E = not_found_env and t = "init ''http://x/items''"
        and e = "''/7''" and x = 404 and h = None and d = None and m = "''GET''" and n = None]
  note b = response_returned_when_expected [where E = refusing_env and t = "init ''http://x/items''"
        and e = "''/7''" and x = 404 and h = None and d = None and m = "''GET''" and n = None]
  note c = response_returned_when_expected [where E = not_found_env and t = "init ''http://x/items''"
        and e = "''/9''" and x = 200 and h = None and d = None and m = "''PUT''" and n = None]
  have e1: "Ex Not" and e2: "\<exists>b::bool. b" by blast+
  show ?thesis
    using a b c
    by (simp add: not_found_env_def refusing_env_def not_found_def dispatch_def s200 s404 e1 e2)
qed

text \<open>A 404 is received where 200 was expected, and the caller gets \<^verbatim>\<open>None\<close>.\<close>

theorem received_response_not_returned:
  "server not_found_env (issued (init ''http://x/items''))
      \<lparr>req_verb = GET, req_url = base_url (init ''http://x/items'') @ ''/7'', req_json = None,
        req_headers = None, req_timeout = 10\<rparr> = Inr not_found \<and>
   fst (test_get not_found_env (init ''http://x/items'') ''/7'' 200 None) = None"
  by (simp add: test_get_def send_def judge_def Let_def not_found_env_def not_found_def)

end
